theory Spec2Isabelle
  imports Main "HOL-Library.Sublist"
begin

section \<open>The signed-token library used by the service\<close>

text \<open>
  \<^verbatim>\<open>authService.js\<close> calls \<^verbatim>\<open>jwt.sign\<close> and \<^verbatim>\<open>jwt.verify\<close> of the
  \<^verbatim>\<open>jsonwebtoken\<close> package. The package is a dependency, so it is modelled
  symbolically, in the style of the message algebra of the protocol proofs: a token that
  decodes is the algorithm named in its header, its payload object and a signature term.
  The signature of a payload under a key with an algorithm of the HMAC family is the free
  term \<open>Hmac alg key payload\<close> (no two distinct triples share a signature); any other
  signature segment is \<open>Bytes\<close>, empty when the segment is empty. Every string that
  does not decode into a header, a payload and a signature is \<open>Malformed\<close>.

  A JavaScript object is an association list from property names to values, in insertion
  order.
\<close>

datatype jvalue = JNum nat | JStr string

type_synonym jobject = "(string \<times> jvalue) list"

datatype algorithm = HS256 | HS384 | HS512 | OtherAlgorithm string

datatype signature = Hmac algorithm string jobject | Bytes string

datatype jwt = Malformed string | JWT algorithm jobject signature

datatype jwt_error = JsonWebTokenError string | NotBeforeError | TokenExpiredError

text \<open>
  \<^verbatim>\<open>jwt.sign(payload, secret, {expiresIn})\<close> for a payload that carries neither
  \<^verbatim>\<open>iat\<close> nor \<^verbatim>\<open>exp\<close> (the payload of \<open>generateToken\<close> carries neither): the
  package copies the payload, sets \<^verbatim>\<open>iat\<close> to the clock in whole seconds (its
  documentation: generated tokens include an issued-at claim unless \<^verbatim>\<open>noTimestamp\<close>
  is given) and \<^verbatim>\<open>exp\<close> to \<^verbatim>\<open>iat\<close> plus the lifetime, and signs the result with
  its default algorithm, HS256. The clock \<open>now\<close> is \<^verbatim>\<open>Date.now()\<close>, in milliseconds; the
  lifetime is in seconds.
\<close>

definition jwt_sign :: "jobject \<Rightarrow> string \<Rightarrow> nat \<Rightarrow> nat \<Rightarrow> jwt" where
  "jwt_sign payload secretOrPrivateKey expiresIn now =
     (let timestamp = now div 1000;
          signed = payload @ [(''iat'', JNum timestamp), (''exp'', JNum (timestamp + expiresIn))]
      in JWT HS256 signed (Hmac HS256 secretOrPrivateKey signed))"

text \<open>
  \<^verbatim>\<open>jwt.verify(token, secret)\<close>, called without options and with a secret that is a
  plain string: no \<^verbatim>\<open>algorithms\<close> option is given, so the package allows every
  algorithm of the HMAC family, not the one of \<^verbatim>\<open>jwt.sign\<close> alone.
\<close>

definition HS_SUPPORTED :: "algorithm list" where
  "HS_SUPPORTED = [HS256, HS384, HS512]"

text \<open>
  The token is decoded (an empty string, a string that has not three segments and a
  string whose segments do not decode are told apart by the message only), an empty
  signature segment is refused, then the algorithm of the header is looked up among the
  allowed ones, then the signature is checked with that algorithm, then \<^verbatim>\<open>nbf\<close> and
  \<^verbatim>\<open>exp\<close>, when present, are compared with the clock in whole seconds (a token is
  expired from the second \<^verbatim>\<open>exp\<close> on). The package returns the decoded payload, all
  of its properties, and throws one of its three error classes otherwise.
\<close>

definition decode_error :: "string \<Rightarrow> jwt_error" where
  "decode_error jwtString =
     (if jwtString = [] then JsonWebTokenError ''jwt must be provided''
      else if length (filter (\<lambda>c. c = CHR ''.'') jwtString) \<noteq> 2
      then JsonWebTokenError ''jwt malformed''
      else JsonWebTokenError ''invalid token'')"

definition not_before_check :: "jobject \<Rightarrow> nat \<Rightarrow> jwt_error option" where
  "not_before_check payload clockTimestamp =
     (case map_of payload ''nbf'' of
        None \<Rightarrow> None
      | Some (JStr s) \<Rightarrow> Some (JsonWebTokenError ''invalid nbf value'')
      | Some (JNum nbf) \<Rightarrow> if nbf > clockTimestamp then Some NotBeforeError else None)"

definition expiry_check :: "jobject \<Rightarrow> nat \<Rightarrow> jwt_error option" where
  "expiry_check payload clockTimestamp =
     (case map_of payload ''exp'' of
        None \<Rightarrow> None
      | Some (JStr s) \<Rightarrow> Some (JsonWebTokenError ''invalid exp value'')
      | Some (JNum exp) \<Rightarrow> if clockTimestamp \<ge> exp then Some TokenExpiredError else None)"

definition jwt_verify :: "jwt \<Rightarrow> string \<Rightarrow> nat \<Rightarrow> jwt_error + jobject" where
  "jwt_verify jwtString secretOrPublicKey now =
     (let clockTimestamp = now div 1000 in
      case jwtString of
        Malformed s \<Rightarrow> Inl (decode_error s)
      | JWT alg payload sig \<Rightarrow>
          if sig = Bytes []
          then Inl (JsonWebTokenError ''jwt signature is required'')
          else if alg \<notin> set HS_SUPPORTED
          then Inl (JsonWebTokenError ''invalid algorithm'')
          else if sig \<noteq> Hmac alg secretOrPublicKey payload
          then Inl (JsonWebTokenError ''invalid signature'')
          else (case not_before_check payload clockTimestamp of
                  Some err \<Rightarrow> Inl err
                | None \<Rightarrow>
                    (case expiry_check payload clockTimestamp of
                       Some err \<Rightarrow> Inl err
                     | None \<Rightarrow> Inr payload)))"

section \<open>The User model\<close>

text \<open>
  \<^verbatim>\<open>authService.js\<close> requires \<^verbatim>\<open>../models/User\<close>, and \<^verbatim>\<open>models/User.js\<close> is
  not among the sources. Its data and its operations are modelled from the specification
  (sections 3 and 4.2); each such definition says so.
\<close>

text \<open>Modelled from the spec: the password hash of \<^verbatim>\<open>models/User.js\<close> (missing),
  "derived from plaintext password via a one-way salted hash function". The hash is
  symbolic: \<open>Bcrypt cost salt password\<close> stands for the hash of the password under that
  salt and work factor.
\<close>

datatype pwhash = Bcrypt nat string string

text \<open>Modelled from the spec: the fields of a User of \<^verbatim>\<open>models/User.js\<close> (missing) that
  the projection shows. Timestamps are milliseconds since the epoch.
\<close>

record user_json =
  user_id :: nat
  email :: string
  firstName :: "string option"
  lastName :: "string option"
  isActive :: bool
  lastLogin :: "nat option"
  createdAt :: nat
  updatedAt :: nat

text \<open>Modelled from the spec: the stored User row of \<^verbatim>\<open>models/User.js\<close> (missing), the
  fields above and the password hash.
\<close>

record user_row = user_json +
  passwordHash :: pwhash

text \<open>The table of users, in insertion order.\<close>

type_synonym store = "user_row list"

record userData =
  data_email :: string
  data_password :: string
  data_firstName :: "string option"
  data_lastName :: "string option"

text \<open>A thrown \<^verbatim>\<open>new Error(message)\<close>.\<close>

datatype error = Error string

text \<open>Modelled from the spec: \<^verbatim>\<open>User.findOne({ where: { email } })\<close> of
  \<^verbatim>\<open>models/User.js\<close> (missing), the lookup of a user by email: the first row with
  that email, if any.
\<close>

definition findOne :: "store \<Rightarrow> string \<Rightarrow> user_row option" where
  "findOne st e = find (\<lambda>u. email u = e) st"

text \<open>Modelled from the spec: \<^verbatim>\<open>User.findByPk(id)\<close> of \<^verbatim>\<open>models/User.js\<close>
  (missing), the lookup by primary key.
\<close>

definition findByPk :: "store \<Rightarrow> nat \<Rightarrow> user_row option" where
  "findByPk st i = find (\<lambda>u. user_id u = i) st"

text \<open>Modelled from the spec: the identifier that \<^verbatim>\<open>models/User.js\<close> (missing)
  generates at creation, "opaque" and "unique"; here the successor of the largest stored
  identifier.
\<close>

definition fresh_id :: "store \<Rightarrow> nat" where
  "fresh_id st = Suc (foldr max (map user_id st) 0)"

text \<open>Modelled from the spec: \<^verbatim>\<open>User.create({email, password, firstName, lastName})\<close>
  of \<^verbatim>\<open>models/User.js\<close> (missing). The password is hashed with work factor 10 and the salt drawn for this call, the row is
  active, has never logged in, and is appended to the table. The unique constraint of the
  table on the email rejects the insert of a second row with a stored email.
\<close>

definition User_create :: "nat \<Rightarrow> string \<Rightarrow> userData \<Rightarrow> store \<Rightarrow> (error + user_row) \<times> store" where
  "User_create now salt values st =
     (if data_email values \<in> set (map email st)
      then (Inl (Error ''Validation error''), st)
      else
        (let user = \<lparr> user_id = fresh_id st,
                      email = data_email values,
                      firstName = data_firstName values,
                      lastName = data_lastName values,
                      isActive = True,
                      lastLogin = None,
                      createdAt = now,
                      updatedAt = now,
                      passwordHash = Bcrypt 10 salt (data_password values) \<rparr>
         in (Inr user, st @ [user])))"

text \<open>Modelled from the spec: \<^verbatim>\<open>user.comparePassword(password)\<close> of
  \<^verbatim>\<open>models/User.js\<close> (missing), the comparison of a supplied password with the
  stored hash.
\<close>

definition comparePassword :: "user_row \<Rightarrow> string \<Rightarrow> bool" where
  "comparePassword user candidate =
     (case passwordHash user of Bcrypt c s password \<Rightarrow> candidate = password)"

text \<open>Modelled from the spec: the effect of \<^verbatim>\<open>user.update({ lastLogin: d })\<close> of
  \<^verbatim>\<open>models/User.js\<close> (missing) on one row: \<^verbatim>\<open>lastLogin\<close> is set, and the
  store stamps \<^verbatim>\<open>updatedAt\<close>.
\<close>

definition touch :: "nat \<Rightarrow> user_row \<Rightarrow> user_row" where
  "touch d u = u\<lparr> lastLogin := Some d, updatedAt := d \<rparr>"

text \<open>Modelled from the spec: \<^verbatim>\<open>user.update({ lastLogin: d })\<close> of \<^verbatim>\<open>models/User.js\<close>
  (missing). The instance in hand and the row with its primary key are both updated.
\<close>

definition User_update :: "user_row \<Rightarrow> nat \<Rightarrow> store \<Rightarrow> user_row \<times> store" where
  "User_update user d st =
     (touch d user, map (\<lambda>r. if user_id r = user_id user then touch d r else r) st)"

text \<open>Modelled from the spec: \<^verbatim>\<open>user.toJSON()\<close> of \<^verbatim>\<open>models/User.js\<close> (missing),
  the projection of a row: every field but the password hash.
\<close>

definition toJSON :: "user_row \<Rightarrow> user_json" where
  "toJSON u =
     \<lparr> user_id = user_id u,
       email = email u,
       firstName = firstName u,
       lastName = lastName u,
       isActive = isActive u,
       lastLogin = lastLogin u,
       createdAt = createdAt u,
       updatedAt = updatedAt u \<rparr>"

section \<open>AuthService\<close>

text \<open>
  The two constants read from the environment at load time. \<open>JWT_EXPIRES_IN\<close> is the
  lifetime in seconds that the package computes from the configured time span; the
  defaults of the source are the fallback secret and \<^verbatim>\<open>'24h'\<close>.
\<close>

record config =
  JWT_SECRET :: string
  JWT_EXPIRES_IN :: nat

definition default_config :: config where
  "default_config = \<lparr> JWT_SECRET = ''your-super-secret-jwt-key'', JWT_EXPIRES_IN = 86400 \<rparr>"

record auth_result =
  user :: user_json
  token :: jwt

text \<open>
  \<^verbatim>\<open>generateToken(user)\<close>: the payload is the \<^verbatim>\<open>id\<close> and the \<^verbatim>\<open>email\<close> of the
  user object, signed with the configured secret and lifetime.
\<close>

definition generateToken :: "config \<Rightarrow> nat \<Rightarrow> 'a user_json_scheme \<Rightarrow> jwt" where
  "generateToken cfg now u =
     (let payload = [(''id'', JNum (user_id u)), (''email'', JStr (email u))]
      in jwt_sign payload (JWT_SECRET cfg) (JWT_EXPIRES_IN cfg) now)"

text \<open>
  \<^verbatim>\<open>verifyToken(token)\<close>: whatever \<^verbatim>\<open>jwt.verify\<close> returns; whatever it throws is
  caught and replaced by one error.
\<close>

definition verifyToken :: "config \<Rightarrow> nat \<Rightarrow> jwt \<Rightarrow> error + jobject" where
  "verifyToken cfg now tok =
     (case jwt_verify tok (JWT_SECRET cfg) now of
        Inr decoded \<Rightarrow> Inr decoded
      | Inl err \<Rightarrow> Inl (Error ''Invalid or expired token''))"

text \<open>
  \<^verbatim>\<open>register(userData)\<close>: the lookup by email, then the insert, then the token. The
  two clock readings of one call (the row's timestamps, the token's \<^verbatim>\<open>iat\<close>) are the
  one \<open>now\<close>.
\<close>

definition register :: "config \<Rightarrow> nat \<Rightarrow> string \<Rightarrow> userData \<Rightarrow> store \<Rightarrow> (error + auth_result) \<times> store" where
  "register cfg now salt userData st =
     (case findOne st (data_email userData) of
        Some existingUser \<Rightarrow> (Inl (Error ''User with this email already exists''), st)
      | None \<Rightarrow>
          (case User_create now salt userData st of
             (Inl err, st') \<Rightarrow> (Inl err, st')
           | (Inr u, st') \<Rightarrow>
               (let tok = generateToken cfg now u
                in (Inr \<lparr> user = toJSON u, token = tok \<rparr>, st'))))"

text \<open>
  \<^verbatim>\<open>login(email, password)\<close>: the lookup, the active check, the password check, in
  this order; then the update of \<^verbatim>\<open>lastLogin\<close> with \<^verbatim>\<open>new Date()\<close> and the token.
\<close>

definition login :: "config \<Rightarrow> nat \<Rightarrow> string \<Rightarrow> string \<Rightarrow> store \<Rightarrow> (error + auth_result) \<times> store" where
  "login cfg now e password st =
     (case findOne st e of
        None \<Rightarrow> (Inl (Error ''Invalid credentials''), st)
      | Some u \<Rightarrow>
          if \<not> isActive u then (Inl (Error ''Account is disabled''), st)
          else if \<not> comparePassword u password then (Inl (Error ''Invalid credentials''), st)
          else
            (case User_update u now st of
               (u', st') \<Rightarrow>
                 (let tok = generateToken cfg now u'
                  in (Inr \<lparr> user = toJSON u', token = tok \<rparr>, st'))))"

text \<open>\<^verbatim>\<open>getUserById(userId)\<close>: the lookup by primary key and the projection.\<close>

definition getUserById :: "nat \<Rightarrow> store \<Rightarrow> (error + user_json) \<times> store" where
  "getUserById userId st =
     (case findByPk st userId of
        None \<Rightarrow> (Inl (Error ''User not found''), st)
      | Some u \<Rightarrow> (Inr (toJSON u), st))"

text \<open>
  The names that section 7 of the specification gives to the failures; the source throws a
  plain \<^verbatim>\<open>Error\<close> with these messages.
\<close>

abbreviation DuplicateAccountError :: error where
  "DuplicateAccountError \<equiv> Error ''User with this email already exists''"

abbreviation InvalidCredentialsError :: error where
  "InvalidCredentialsError \<equiv> Error ''Invalid credentials''"

abbreviation AccountDisabledError :: error where
  "AccountDisabledError \<equiv> Error ''Account is disabled''"

abbreviation UserNotFoundError :: error where
  "UserNotFoundError \<equiv> Error ''User not found''"

abbreviation InvalidOrExpiredTokenError :: error where
  "InvalidOrExpiredTokenError \<equiv> Error ''Invalid or expired token''"

section \<open>The service as calls against the store\<close>

text \<open>
  The four operations of the service, each with what it reads from its environment (the
  clock, the salt drawn for a new hash). \<open>verifyToken\<close> is given no store: it reads
  the token and the clock only.
\<close>

datatype call =
    Register nat string userData
  | Login nat string string
  | VerifySession nat jwt
  | GetUserById nat

datatype response =
    Session "error + auth_result"
  | Claims "error + jobject"
  | Profile "error + user_json"

fun exec :: "config \<Rightarrow> call \<Rightarrow> store \<Rightarrow> response \<times> store" where
  "exec cfg (Register now salt userData) st =
     (case register cfg now salt userData st of (r, st') \<Rightarrow> (Session r, st'))"
| "exec cfg (Login now e password) st =
     (case login cfg now e password st of (r, st') \<Rightarrow> (Session r, st'))"
| "exec cfg (VerifySession now tok) st = (Claims (verifyToken cfg now tok), st)"
| "exec cfg (GetUserById userId) st =
     (case getUserById userId st of (r, st') \<Rightarrow> (Profile r, st'))"

fun run :: "config \<Rightarrow> call list \<Rightarrow> store \<Rightarrow> store" where
  "run cfg [] st = st"
| "run cfg (c # cs) st = run cfg cs (snd (exec cfg c st))"

fun is_Register :: "call \<Rightarrow> bool" where
  "is_Register (Register now salt userData) = True"
| "is_Register c = False"

text \<open>The identity of the stored rows: identifier and email of each, in table order.\<close>

definition keys :: "store \<Rightarrow> (nat \<times> string) list" where
  "keys st = map (\<lambda>u. (user_id u, email u)) st"

section \<open>Example data\<close>

definition alice :: user_row where
  "alice = \<lparr> user_id = 1, email = ''alice@example.com'', firstName = Some ''Alice'',
     lastName = None, isActive = True, lastLogin = None, createdAt = 5, updatedAt = 5,
     passwordHash = Bcrypt 10 ''s1'' ''secret1'' \<rparr>"

definition bob :: user_row where
  "bob = \<lparr> user_id = 2, email = ''bob@example.com'', firstName = None,
     lastName = None, isActive = False, lastLogin = None, createdAt = 6, updatedAt = 6,
     passwordHash = Bcrypt 10 ''s2'' ''hunter22'' \<rparr>"

definition carol_data :: userData where
  "carol_data = \<lparr> data_email = ''carol@example.com'', data_password = ''secret3'',
     data_firstName = Some ''Carol'', data_lastName = None \<rparr>"

definition bob_again :: userData where
  "bob_again = \<lparr> data_email = ''bob@example.com'', data_password = ''another'',
     data_firstName = None, data_lastName = None \<rparr>"

section \<open>Lookups and fresh identifiers\<close>

lemma find_distinct:
  "distinct (map f xs) \<Longrightarrow> x \<in> set xs \<Longrightarrow> find (\<lambda>y. f y = f x) xs = Some x"
  by (induction xs) (auto simp: image_iff)

lemma findOne_None_iff: "findOne st e = None \<longleftrightarrow> e \<notin> email ` set st"
  by (auto simp: findOne_def find_None_iff)

lemma findOne_member:
  "distinct (map email st) \<Longrightarrow> u \<in> set st \<Longrightarrow> findOne st (email u) = Some u"
  unfolding findOne_def by (rule find_distinct)

lemma findByPk_member:
  "distinct (map user_id st) \<Longrightarrow> u \<in> set st \<Longrightarrow> findByPk st (user_id u) = Some u"
  unfolding findByPk_def by (rule find_distinct)

lemma findByPk_None_iff: "findByPk st i = None \<longleftrightarrow> i \<notin> user_id ` set st"
  by (auto simp: findByPk_def find_None_iff)

lemma foldr_max_ge: "x \<in> set xs \<Longrightarrow> x \<le> foldr max xs (0::nat)"
  by (induction xs) auto

lemma fresh_id_gt: "u \<in> set st \<Longrightarrow> user_id u < fresh_id st"
  unfolding fresh_id_def using foldr_max_ge [of "user_id u" "map user_id st"] by auto

lemma touch_fields [simp]:
  "user_id (touch d u) = user_id u" "email (touch d u) = email u"
  "firstName (touch d u) = firstName u" "lastName (touch d u) = lastName u"
  "isActive (touch d u) = isActive u" "createdAt (touch d u) = createdAt u"
  "passwordHash (touch d u) = passwordHash u"
  "lastLogin (touch d u) = Some d" "updatedAt (touch d u) = d"
  by (simp_all add: touch_def)

lemma update_by_key:
  assumes "distinct (map user_id st)" and "u \<in> set st"
  shows "map (\<lambda>r. if user_id r = user_id u then touch d r else r) st =
         map (\<lambda>r. if r = u then touch d u else r) st"
proof (rule map_cong [OF refl])
  fix r assume "r \<in> set st"
  with assms have "user_id r = user_id u \<longleftrightarrow> r = u"
    by (auto simp: distinct_map dest: inj_onD)
  then show "(if user_id r = user_id u then touch d r else r) = (if r = u then touch d u else r)"
    by auto
qed

section \<open>How each call changes the table\<close>

lemma emails_keys: "map email st = map snd (keys st)"
  by (simp add: keys_def comp_def)

lemma login_keys: "keys (snd (login cfg now e pw st)) = keys st"
  by (simp add: login_def User_update_def keys_def comp_def split: option.split)

lemma register_rows:
  "snd (register cfg now salt d st) = st \<or>
   (\<exists>u. snd (register cfg now salt d st) = st @ [u] \<and> email u \<notin> email ` set st)"
  by (simp add: register_def User_create_def Let_def split: option.split)

lemma getUserById_store: "snd (getUserById i st) = st"
  by (simp add: getUserById_def split: option.split)

lemma exec_step:
  assumes "distinct (map email st)"
  shows "distinct (map email (snd (exec cfg c st))) \<and>
         prefix (keys st) (keys (snd (exec cfg c st))) \<and>
         length (snd (exec cfg c st)) \<le> length st + (if is_Register c then 1 else 0)"
proof (cases c)
  case (Register now salt d)
  from register_rows [of cfg now salt d st] show ?thesis
  proof
    assume "snd (register cfg now salt d st) = st"
    with assms Register show ?thesis by (simp add: split_beta)
  next
    assume "\<exists>u. snd (register cfg now salt d st) = st @ [u] \<and> email u \<notin> email ` set st"
    then obtain u where "snd (register cfg now salt d st) = st @ [u]"
      and "email u \<notin> email ` set st" by blast
    with assms Register show ?thesis by (simp add: split_beta keys_def)
  qed
next
  case (Login now e pw)
  have "map email (snd (login cfg now e pw st)) = map email st"
    by (simp add: emails_keys login_keys)
  moreover have "length (snd (login cfg now e pw st)) = length st"
    using arg_cong [OF login_keys [of cfg now e pw st], of length] by (simp add: keys_def)
  ultimately show ?thesis using assms Login by (simp add: split_beta login_keys)
next
  case (VerifySession now tok)
  with assms show ?thesis by simp
next
  case (GetUserById i)
  with assms show ?thesis by (simp add: split_beta getUserById_store)
qed

section \<open>The example table\<close>

lemma example_store:
  "distinct (map email [alice, bob])" "distinct (map user_id [alice, bob])"
  "alice \<in> set [alice, bob]" "bob \<in> set [alice, bob]"
  "isActive alice" "\<not> isActive bob"
  "comparePassword alice ''secret1''" "\<not> comparePassword alice ''secret''"
  "comparePassword bob ''hunter22''"
  "''carol@example.com'' \<notin> email ` set [alice, bob]"
  by (simp_all add: alice_def bob_def comparePassword_def)

section \<open>The token codec\<close>

text \<open>
  A token signed under the secret with another algorithm of the HMAC family verifies:
  \<open>verifyToken\<close> does not pin the algorithm of \<open>generateToken\<close>.
\<close>

lemma verifyToken_accepts_hmac_family:
  "alg \<in> set HS_SUPPORTED \<Longrightarrow>
   verifyToken cfg now (JWT alg [(''id'', JNum i)] (Hmac alg (JWT_SECRET cfg) [(''id'', JNum i)])) =
     Inr [(''id'', JNum i)]"
  by (simp add: verifyToken_def jwt_verify_def not_before_check_def expiry_check_def Let_def)

text \<open>
  C1, as amended. For every user id and email, a token issued for them and verified
  before its expiry instant (the issue time in whole seconds plus the configured
  lifetime) verifies, and the claims returned carry that id and that email. The claims
  are not the two fields alone: the issued-at and the expiry instants that the codec adds
  come back with them, so the result is \<open>{id, email, iat, exp}\<close>.
\<close>

theorem token_roundtrip:
  "now' div 1000 < now div 1000 + JWT_EXPIRES_IN cfg \<Longrightarrow>
   verifyToken cfg now' (generateToken cfg now u) =
     Inr [(''id'', JNum (user_id u)), (''email'', JStr (email u)),
          (''iat'', JNum (now div 1000)),
          (''exp'', JNum (now div 1000 + JWT_EXPIRES_IN cfg))]"
  by (simp add: verifyToken_def generateToken_def jwt_sign_def jwt_verify_def HS_SUPPORTED_def
      not_before_check_def expiry_check_def Let_def)

theorem token_roundtrip_witness:
  "(86399999::nat) div 1000 < 0 div 1000 + JWT_EXPIRES_IN default_config \<and>
   verifyToken default_config 86399999 (generateToken default_config 0 alice) =
     Inr [(''id'', JNum 1), (''email'', JStr ''alice@example.com''),
          (''iat'', JNum 0), (''exp'', JNum 86400)]"
proof -
  have h: "(86399999::nat) div 1000 < 0 div 1000 + JWT_EXPIRES_IN default_config"
    by (simp add: default_config_def)
  from token_roundtrip [OF h, of alice] h show ?thesis
    by (simp add: alice_def default_config_def)
qed

text \<open>
  C1 as it is written fails on the example user: the claims returned at once are the four
  fields, not \<open>{id, email}\<close>, and the same token, verified a whole lifetime later, does
  not verify.
\<close>

theorem token_claims_counterexample:
  "verifyToken default_config 0 (generateToken default_config 0 alice) =
     Inr [(''id'', JNum 1), (''email'', JStr ''alice@example.com''),
          (''iat'', JNum 0), (''exp'', JNum 86400)] \<and>
   verifyToken default_config 0 (generateToken default_config 0 alice) \<noteq>
     Inr [(''id'', JNum 1), (''email'', JStr ''alice@example.com'')] \<and>
   verifyToken default_config 86400000 (generateToken default_config 0 alice) =
     Inl InvalidOrExpiredTokenError"
  by (simp add: verifyToken_def generateToken_def jwt_sign_def jwt_verify_def HS_SUPPORTED_def
      not_before_check_def expiry_check_def Let_def alice_def default_config_def)

text \<open>
  C5. Whatever makes the verification fail, \<open>verifyToken\<close> raises the one error
  with the message \<^verbatim>\<open>Invalid or expired token\<close>: every failure of the library becomes
  it, no other error leaves \<open>verifyToken\<close>, and a malformed token, a token whose
  signature is not the one of its payload under the secret with the algorithm of its
  header, a token whose header names an algorithm outside the HMAC family, and a token
  of this service verified when its lifetime has elapsed all end in it.
\<close>

theorem verifyToken_uniform:
  "(isl (jwt_verify tok (JWT_SECRET cfg) now) \<longrightarrow>
      verifyToken cfg now tok = Inl InvalidOrExpiredTokenError) \<and>
   (verifyToken cfg now tok = Inl e \<longrightarrow> e = InvalidOrExpiredTokenError) \<and>
   verifyToken cfg now (Malformed s) = Inl InvalidOrExpiredTokenError \<and>
   (sig \<noteq> Hmac alg (JWT_SECRET cfg) payload \<longrightarrow>
      verifyToken cfg now (JWT alg payload sig) = Inl InvalidOrExpiredTokenError) \<and>
   (alg \<notin> set HS_SUPPORTED \<longrightarrow>
      verifyToken cfg now (JWT alg payload sig) = Inl InvalidOrExpiredTokenError) \<and>
   (issued div 1000 + JWT_EXPIRES_IN cfg \<le> now div 1000 \<longrightarrow>
      verifyToken cfg now (generateToken cfg issued u) = Inl InvalidOrExpiredTokenError)"
proof (intro conjI impI)
  show "verifyToken cfg now tok = Inl InvalidOrExpiredTokenError"
    if "isl (jwt_verify tok (JWT_SECRET cfg) now)"
    using that by (cases "jwt_verify tok (JWT_SECRET cfg) now") (simp_all add: verifyToken_def)
  show "e = InvalidOrExpiredTokenError" if "verifyToken cfg now tok = Inl e"
    using that by (cases "jwt_verify tok (JWT_SECRET cfg) now") (simp_all add: verifyToken_def)
  show "verifyToken cfg now (Malformed s) = Inl InvalidOrExpiredTokenError"
    by (simp add: verifyToken_def jwt_verify_def)
  show "verifyToken cfg now (JWT alg payload sig) = Inl InvalidOrExpiredTokenError"
    if "sig \<noteq> Hmac alg (JWT_SECRET cfg) payload"
    using that by (simp add: verifyToken_def jwt_verify_def Let_def)
  show "verifyToken cfg now (JWT alg payload sig) = Inl InvalidOrExpiredTokenError"
    if "alg \<notin> set HS_SUPPORTED"
    using that by (simp add: verifyToken_def jwt_verify_def Let_def)
  show "verifyToken cfg now (generateToken cfg issued u) = Inl InvalidOrExpiredTokenError"
    if "issued div 1000 + JWT_EXPIRES_IN cfg \<le> now div 1000"
    using that
    by (simp add: verifyToken_def generateToken_def jwt_sign_def jwt_verify_def HS_SUPPORTED_def
        not_before_check_def expiry_check_def Let_def)
qed

theorem verifyToken_uniform_witness:
  "isl (jwt_verify (Malformed ''invalid.token.here'') (JWT_SECRET default_config) 86400000) \<and>
   verifyToken default_config 86400000 (Malformed ''invalid.token.here'') =
     Inl InvalidOrExpiredTokenError \<and>
   Bytes ''forged'' \<noteq> Hmac (OtherAlgorithm ''RS256'') (JWT_SECRET default_config)
     [(''id'', JNum 1)] \<and>
   OtherAlgorithm ''RS256'' \<notin> set HS_SUPPORTED \<and>
   verifyToken default_config 86400000
     (JWT (OtherAlgorithm ''RS256'') [(''id'', JNum 1)] (Bytes ''forged'')) =
     Inl InvalidOrExpiredTokenError \<and>
   (0::nat) div 1000 + JWT_EXPIRES_IN default_config \<le> 86400000 div 1000 \<and>
   verifyToken default_config 86400000 (generateToken default_config 0 alice) =
     Inl InvalidOrExpiredTokenError"
proof -
  have h1: "isl (jwt_verify (Malformed ''invalid.token.here'') (JWT_SECRET default_config) 86400000)"
    by (simp add: jwt_verify_def)
  have h2: "Bytes ''forged'' \<noteq> Hmac (OtherAlgorithm ''RS256'') (JWT_SECRET default_config)
     [(''id'', JNum 1)]"
    by simp
  have h3: "OtherAlgorithm ''RS256'' \<notin> set HS_SUPPORTED"
    by (simp add: HS_SUPPORTED_def)
  have h4: "(0::nat) div 1000 + JWT_EXPIRES_IN default_config \<le> 86400000 div 1000"
    by (simp add: default_config_def)
  from verifyToken_uniform [where tok = "Malformed ''invalid.token.here''"
      and cfg = default_config and now = 86400000 and e = InvalidOrExpiredTokenError
      and s = "''invalid.token.here''" and sig = "Bytes ''forged''"
      and alg = "OtherAlgorithm ''RS256''" and payload = "[(''id'', JNum 1)]"
      and issued = 0 and u = alice]
  show ?thesis using h1 h2 h3 h4 by blast
qed

section \<open>Registration\<close>

text \<open>
  C3. When a stored user has the email of the registration data, \<open>register\<close> fails
  with the error of a duplicate account, whatever the password and the other fields are,
  and the table is returned as it was: no row is created.
\<close>

theorem register_duplicate:
  "data_email userData \<in> email ` set st \<Longrightarrow>
   register cfg now salt userData st = (Inl DuplicateAccountError, st)"
proof -
  assume "data_email userData \<in> email ` set st"
  then obtain u where "findOne st (data_email userData) = Some u"
    using findOne_None_iff [of st "data_email userData"] by auto
  then show ?thesis by (simp add: register_def)
qed

theorem register_duplicate_witness:
  "data_email bob_again \<in> email ` set [alice, bob] \<and>
   register default_config 1000 ''s3'' bob_again [alice, bob] =
     (Inl DuplicateAccountError, [alice, bob])"
proof -
  have h: "data_email bob_again \<in> email ` set [alice, bob]"
    by (simp add: bob_again_def bob_def)
  from register_duplicate [OF h] h show ?thesis by simp
qed

text \<open>
  C6. When no stored user has the email of the registration data, \<open>register\<close>
  succeeds: one row is appended to the table, with that email, active, holding the hash
  of the password and a new identifier; the result is the projection of that row and a
  token issued for it. The projection does not depend on the password hash: rows that
  differ in the hash alone project alike. Nothing is required of the email and the
  password beyond the email being new.
\<close>

theorem register_success:
  "data_email userData \<notin> email ` set st \<Longrightarrow>
   \<exists>u. register cfg now salt userData st =
         (Inr \<lparr> user = toJSON u, token = generateToken cfg now u \<rparr>, st @ [u]) \<and>
       email u = data_email userData \<and>
       firstName u = data_firstName userData \<and>
       lastName u = data_lastName userData \<and>
       isActive u \<and>
       passwordHash u = Bcrypt 10 salt (data_password userData) \<and>
       comparePassword u (data_password userData) \<and>
       user_id u \<notin> user_id ` set st \<and>
       (\<forall>h. toJSON (u\<lparr> passwordHash := h \<rparr>) = toJSON u)"
proof -
  assume new: "data_email userData \<notin> email ` set st"
  then have none: "findOne st (data_email userData) = None"
    by (simp add: findOne_None_iff)
  have fresh: "fresh_id st \<notin> user_id ` set st"
    using fresh_id_gt by fastforce
  show ?thesis
    using new none fresh
    by (simp add: register_def User_create_def Let_def comparePassword_def toJSON_def)
qed

theorem register_success_witness:
  "data_email carol_data \<notin> email ` set [alice, bob] \<and>
   (\<exists>u. register default_config 1000 ''s3'' carol_data [alice, bob] =
         (Inr \<lparr> user = toJSON u, token = generateToken default_config 1000 u \<rparr>,
          [alice, bob] @ [u]) \<and>
       email u = ''carol@example.com'' \<and> isActive u \<and>
       passwordHash u = Bcrypt 10 ''s3'' ''secret3'')"
proof -
  have h: "data_email carol_data \<notin> email ` set [alice, bob]"
    using example_store(10) by (simp add: carol_data_def)
  from register_success [OF h, of default_config 1000 "''s3''"] h show ?thesis
    by (auto simp: carol_data_def)
qed

section \<open>Login\<close>

text \<open>
  C2. In any table, a login with an email that no row has, and a login with an email
  whose row (the one the lookup returns) is active and a password that does not match
  the hash of that row, both fail with the error \<^verbatim>\<open>Invalid credentials\<close> and leave
  the table as it was; the two outcomes are equal.
\<close>

theorem login_failures_indistinguishable:
  "e1 \<notin> email ` set st \<Longrightarrow> findOne st e2 = Some u \<Longrightarrow> isActive u \<Longrightarrow>
   \<not> comparePassword u pw2 \<Longrightarrow>
   login cfg now1 e1 pw1 st = (Inl InvalidCredentialsError, st) \<and>
   login cfg now2 e2 pw2 st = (Inl InvalidCredentialsError, st) \<and>
   login cfg now1 e1 pw1 st = login cfg now2 e2 pw2 st"
  by (simp add: login_def findOne_None_iff [symmetric])

theorem login_failures_indistinguishable_witness:
  "''carol@example.com'' \<notin> email ` set [alice, bob] \<and>
   findOne [alice, bob] ''alice@example.com'' = Some alice \<and> isActive alice \<and>
   \<not> comparePassword alice ''secret'' \<and>
   login default_config 1000 ''carol@example.com'' ''secret'' [alice, bob] =
     (Inl InvalidCredentialsError, [alice, bob]) \<and>
   login default_config 2000 ''alice@example.com'' ''secret'' [alice, bob] =
     (Inl InvalidCredentialsError, [alice, bob]) \<and>
   login default_config 1000 ''carol@example.com'' ''secret'' [alice, bob] =
     login default_config 2000 ''alice@example.com'' ''secret'' [alice, bob]"
proof -
  have f: "findOne [alice, bob] ''alice@example.com'' = Some alice"
    by (simp add: findOne_def alice_def)
  from login_failures_indistinguishable [OF example_store(10) f example_store(5) example_store(8)]
  show ?thesis using f example_store by simp
qed

text \<open>
  C4. For a stored user that is not active, a login with its email fails with the error
  \<^verbatim>\<open>Account is disabled\<close> for every password, the correct one included, and the
  table, \<^verbatim>\<open>lastLogin\<close> included, is returned as it was.
\<close>

theorem login_disabled:
  "distinct (map email st) \<Longrightarrow> u \<in> set st \<Longrightarrow> \<not> isActive u \<Longrightarrow>
   login cfg now (email u) pw st = (Inl AccountDisabledError, st)"
  by (simp add: login_def findOne_member)

theorem login_disabled_witness:
  "distinct (map email [alice, bob]) \<and> bob \<in> set [alice, bob] \<and> \<not> isActive bob \<and>
   comparePassword bob ''hunter22'' \<and>
   login default_config 1000 (email bob) ''hunter22'' [alice, bob] =
     (Inl AccountDisabledError, [alice, bob])"
  using login_disabled [OF example_store(1) example_store(4) example_store(6)] example_store
  by simp

text \<open>
  C10. The active check comes before the password check: for a stored user that is not
  active the error is \<^verbatim>\<open>Account is disabled\<close> for every password and never
  \<^verbatim>\<open>Invalid credentials\<close>, while an email that no row has gives
  \<^verbatim>\<open>Invalid credentials\<close>; a caller without the password can tell the two apart.
\<close>

theorem disabled_before_password:
  "distinct (map email st) \<Longrightarrow> u \<in> set st \<Longrightarrow> \<not> isActive u \<Longrightarrow> e \<notin> email ` set st \<Longrightarrow>
   fst (login cfg now (email u) pw st) = Inl AccountDisabledError \<and>
   fst (login cfg now (email u) pw st) \<noteq> Inl InvalidCredentialsError \<and>
   fst (login cfg now e pw st) = Inl InvalidCredentialsError"
  by (simp add: login_def findOne_member findOne_None_iff [symmetric])

theorem disabled_before_password_witness:
  "distinct (map email [alice, bob]) \<and> bob \<in> set [alice, bob] \<and> \<not> isActive bob \<and>
   ''carol@example.com'' \<notin> email ` set [alice, bob] \<and>
   \<not> comparePassword bob ''guess'' \<and>
   fst (login default_config 1000 (email bob) ''guess'' [alice, bob]) =
     Inl AccountDisabledError \<and>
   fst (login default_config 1000 ''carol@example.com'' ''guess'' [alice, bob]) =
     Inl InvalidCredentialsError"
proof -
  have g: "\<not> comparePassword bob ''guess''"
    by (simp add: comparePassword_def bob_def)
  from disabled_before_password [OF example_store(1) example_store(4) example_store(6)
      example_store(10), of default_config 1000 "''guess''"]
  show ?thesis using g example_store by simp
qed

text \<open>
  C7. For a stored active user and a password that matches its hash, \<open>login\<close>
  returns the projection of the updated row and a token for the user; in the table the
  row of that user is replaced by the updated row and every other row is as it was. The
  updated row has \<^verbatim>\<open>lastLogin\<close> equal to the current time and the same id, email,
  password hash, first name, last name and active flag.
\<close>

theorem login_success_frame:
  "distinct (map email st) \<Longrightarrow> distinct (map user_id st) \<Longrightarrow> u \<in> set st \<Longrightarrow>
   isActive u \<Longrightarrow> comparePassword u pw \<Longrightarrow>
   \<exists>u'. login cfg now (email u) pw st =
          (Inr \<lparr> user = toJSON u', token = generateToken cfg now u \<rparr>,
           map (\<lambda>r. if r = u then u' else r) st) \<and>
        lastLogin u' = Some now \<and>
        user_id u' = user_id u \<and> email u' = email u \<and>
        passwordHash u' = passwordHash u \<and>
        firstName u' = firstName u \<and> lastName u' = lastName u \<and>
        isActive u' = isActive u"
proof -
  assume h: "distinct (map email st)" "distinct (map user_id st)" "u \<in> set st"
    "isActive u" "comparePassword u pw"
  have "login cfg now (email u) pw st =
          (Inr \<lparr> user = toJSON (touch now u), token = generateToken cfg now u \<rparr>,
           map (\<lambda>r. if r = u then touch now u else r) st)"
    using h by (simp add: login_def findOne_member User_update_def update_by_key
        generateToken_def)
  then show ?thesis by (intro exI [of _ "touch now u"]) simp
qed

theorem login_success_frame_witness:
  "distinct (map email [alice, bob]) \<and> distinct (map user_id [alice, bob]) \<and>
   alice \<in> set [alice, bob] \<and> isActive alice \<and> comparePassword alice ''secret1'' \<and>
   (\<exists>u'. login default_config 1000 (email alice) ''secret1'' [alice, bob] =
          (Inr \<lparr> user = toJSON u', token = generateToken default_config 1000 alice \<rparr>,
           [u', bob]) \<and>
        lastLogin u' = Some 1000 \<and> passwordHash u' = passwordHash alice)"
proof -
  have ne: "bob \<noteq> alice" by (simp add: alice_def bob_def)
  from login_success_frame [OF example_store(1) example_store(2) example_store(3)
      example_store(5) example_store(7), of default_config 1000]
  show ?thesis using example_store ne by auto
qed

section \<open>Profile lookup\<close>

text \<open>
  C8. \<open>getUserById\<close> with an id that no row has fails with \<^verbatim>\<open>User not found\<close>;
  with the id of a stored row it returns a projection from which, with the password hash
  put back, the stored row is rebuilt. The table is returned as it was in both cases.
\<close>

theorem getUserById_spec:
  "(i \<notin> user_id ` set st \<longrightarrow> getUserById i st = (Inl UserNotFoundError, st)) \<and>
   (distinct (map user_id st) \<and> u \<in> set st \<longrightarrow>
      (\<exists>p. getUserById (user_id u) st = (Inr p, st) \<and>
           u = \<lparr> user_id = user_id p, email = email p, firstName = firstName p,
                 lastName = lastName p, isActive = isActive p, lastLogin = lastLogin p,
                 createdAt = createdAt p, updatedAt = updatedAt p,
                 passwordHash = passwordHash u \<rparr>))"
  by (auto simp: getUserById_def findByPk_None_iff [symmetric] findByPk_member toJSON_def)

theorem getUserById_spec_witness:
  "3 \<notin> user_id ` set [alice, bob] \<and>
   getUserById 3 [alice, bob] = (Inl UserNotFoundError, [alice, bob]) \<and>
   distinct (map user_id [alice, bob]) \<and> bob \<in> set [alice, bob] \<and>
   (\<exists>p. getUserById (user_id bob) [alice, bob] = (Inr p, [alice, bob]) \<and>
        email p = ''bob@example.com'' \<and> \<not> isActive p)"
proof -
  have h: "3 \<notin> user_id ` set [alice, bob]" by (simp add: alice_def bob_def)
  have e: "email bob = ''bob@example.com''" by (simp add: bob_def)
  from getUserById_spec [of 3 "[alice, bob]" bob] h example_store e
  show ?thesis by (metis user_json.select_convs(2,5))
qed

section \<open>The store invariant\<close>

text \<open>
  C9. From a table in which no two rows share an email, any sequence of calls of
  \<open>register\<close>, \<open>login\<close>, \<open>verifyToken\<close> and \<open>getUserById\<close> leads to a
  table in which no two rows share an email. No row is deleted: the rows of the starting
  table keep their identifier, email and position. Rows are created by \<open>register\<close>
  only: the table grows by at most one row for each call of \<open>register\<close>.
\<close>

theorem store_invariant:
  "distinct (map email st) \<Longrightarrow>
   distinct (map email (run cfg cs st)) \<and>
   prefix (keys st) (keys (run cfg cs st)) \<and>
   length (run cfg cs st) \<le> length st + length (filter is_Register cs)"
proof (induction cs arbitrary: st)
  case Nil
  then show ?case by simp
next
  case (Cons c cs)
  let ?st = "snd (exec cfg c st)"
  from exec_step [OF Cons.prems, of cfg c]
  have d: "distinct (map email ?st)" and p: "prefix (keys st) (keys ?st)"
    and l: "length ?st \<le> length st + (if is_Register c then 1 else 0)" by simp_all
  from Cons.IH [OF d]
  have "distinct (map email (run cfg cs ?st))"
    and "prefix (keys ?st) (keys (run cfg cs ?st))"
    and "length (run cfg cs ?st) \<le> length ?st + length (filter is_Register cs)" by simp_all
  with p l show ?case by (auto intro: prefix_order.trans)
qed

theorem store_invariant_witness:
  "distinct (map email [alice, bob]) \<and>
   distinct (map email (run default_config
      [Register 1000 ''s3'' carol_data, Login 2000 ''alice@example.com'' ''secret1'',
       VerifySession 3000 (Malformed ''invalid.token.here''), GetUserById 2] [alice, bob])) \<and>
   prefix (keys [alice, bob]) (keys (run default_config
      [Register 1000 ''s3'' carol_data, Login 2000 ''alice@example.com'' ''secret1'',
       VerifySession 3000 (Malformed ''invalid.token.here''), GetUserById 2] [alice, bob])) \<and>
   length (run default_config
      [Register 1000 ''s3'' carol_data, Login 2000 ''alice@example.com'' ''secret1'',
       VerifySession 3000 (Malformed ''invalid.token.here''), GetUserById 2] [alice, bob]) \<le> 3"
  using store_invariant [OF example_store(1), of default_config
      "[Register 1000 ''s3'' carol_data, Login 2000 ''alice@example.com'' ''secret1'',
        VerifySession 3000 (Malformed ''invalid.token.here''), GetUserById 2]"]
    example_store(1)
  by simp

end
